theory Spec2Isabelle
  imports Complex_Main
begin

section \<open>Python values, exceptions and the JSON codec used by the audit service\<close>

text \<open>
  The audit service (\<^verbatim>\<open>src/services/audit_service.py\<close>) receives Python objects for
  \<^verbatim>\<open>old_values\<close>, \<^verbatim>\<open>new_values\<close>, \<^verbatim>\<open>compliance_flags\<close> and the request body, tests
  them for truthiness and serialises them with \<^verbatim>\<open>json.dumps\<close>. The values are modelled by
  the datatype below. Dictionaries are association lists in insertion order; \<open>PObject\<close>
  stands for an object of a class the JSON encoder does not know (\<^verbatim>\<open>Decimal\<close>,
  \<^verbatim>\<open>datetime\<close>, ...), named by its class. Floats are not modelled.
\<close>

datatype pykey = KStr string | KInt int | KBool bool | KNone | KTuple

datatype pyval =
    PNone
  | PBool bool
  | PInt int
  | PStr string
  | PList "pyval list"
  | PTuple "pyval list"
  | PDict "(pykey \<times> pyval) list"
  | PObject string

text \<open>
  Exceptions carry their class name and the text \<^verbatim>\<open>str(e)\<close> gives. The handlers of the
  service are all \<^verbatim>\<open>except Exception\<close>, so the one distinction that matters is whether
  the class derives from \<^verbatim>\<open>Exception\<close> (\<open>PyException\<close>) or only from
  \<^verbatim>\<open>BaseException\<close> (\<open>PyBaseException\<close>: \<^verbatim>\<open>KeyboardInterrupt\<close>, \<^verbatim>\<open>SystemExit\<close>,
  \<^verbatim>\<open>GeneratorExit\<close>).
\<close>

datatype pyexc = PyException string string | PyBaseException string string

fun isinstance_Exception :: "pyexc \<Rightarrow> bool" where
  "isinstance_Exception (PyException c m) = True"
| "isinstance_Exception (PyBaseException c m) = False"

fun str_exc :: "pyexc \<Rightarrow> string" where
  "str_exc (PyException c m) = m"
| "str_exc (PyBaseException c m) = m"

datatype 'a outcome = Returned 'a | Raised pyexc

text \<open>Python truthiness, as \<^verbatim>\<open>x if v else y\<close> and \<^verbatim>\<open>a or b\<close> test it.\<close>

fun truthy :: "pyval \<Rightarrow> bool" where
  "truthy PNone = False"
| "truthy (PBool b) = b"
| "truthy (PInt i) = (i \<noteq> 0)"
| "truthy (PStr s) = (s \<noteq> [])"
| "truthy (PList xs) = (xs \<noteq> [])"
| "truthy (PTuple xs) = (xs \<noteq> [])"
| "truthy (PDict kvs) = (kvs \<noteq> [])"
| "truthy (PObject c) = True"

text \<open>
  A \<^verbatim>\<open>db.Text\<close> column that holds JSON stores the text of one JSON document. The
  document is modelled by its syntax tree; the text layer of \<^verbatim>\<open>json.dumps\<close> and
  \<^verbatim>\<open>json.loads\<close> (separators, escapes) is taken to be lossless and is not modelled.
\<close>

datatype json =
    JNull
  | JBool bool
  | JInt int
  | JStr string
  | JArr "json list"
  | JObj "(string \<times> json) list"

text \<open>Decimal text of an integer, for the dictionary keys that the encoder coerces.\<close>

definition digit_char :: "nat \<Rightarrow> char" where
  "digit_char d = ''0123456789'' ! d"

function str_nat :: "nat \<Rightarrow> string" where
  "str_nat n = (if n < 10 then [digit_char n] else str_nat (n div 10) @ [digit_char (n mod 10)])"
  by pat_completeness auto
termination
  by (relation "measure (\<lambda>n. n)") auto

definition str_int :: "int \<Rightarrow> string" where
  "str_int i = (if i < 0 then CHR ''-'' # str_nat (nat (- i)) else str_nat (nat i))"

text \<open>
  The first failure of a sequence of encodings is the failure of the whole: the encoder
  walks a list or a dictionary in order and raises at the first element it cannot encode.
\<close>

fun sequence_exc :: "(pyexc + 'a) list \<Rightarrow> pyexc + 'a list" where
  "sequence_exc [] = Inr []"
| "sequence_exc (Inl e # rs) = Inl e"
| "sequence_exc (Inr v # rs) = (case sequence_exc rs of Inl e \<Rightarrow> Inl e | Inr vs \<Rightarrow> Inr (v # vs))"

fun dumps_key :: "pykey \<Rightarrow> pyexc + string" where
  "dumps_key (KStr s) = Inr s"
| "dumps_key (KInt i) = Inr (str_int i)"
| "dumps_key (KBool b) = Inr (if b then ''true'' else ''false'')"
| "dumps_key KNone = Inr ''null''"
| "dumps_key KTuple =
     Inl (PyException ''TypeError'' ''keys must be str, int, float, bool or None, not tuple'')"

fun dumps_item :: "pykey \<times> (pyexc + json) \<Rightarrow> pyexc + (string \<times> json)" where
  "dumps_item (k, r) =
     (case dumps_key k of
        Inl e \<Rightarrow> Inl e
      | Inr s \<Rightarrow> (case r of Inl e \<Rightarrow> Inl e | Inr j \<Rightarrow> Inr (s, j)))"

text \<open>
  \<^verbatim>\<open>json.dumps\<close> with the default encoder: tuples become arrays, dictionary keys become
  strings, an object of an unknown class raises \<^verbatim>\<open>TypeError\<close>.
\<close>

primrec json_dumps :: "pyval \<Rightarrow> pyexc + json" where
  "json_dumps PNone = Inr JNull"
| "json_dumps (PBool b) = Inr (JBool b)"
| "json_dumps (PInt i) = Inr (JInt i)"
| "json_dumps (PStr s) = Inr (JStr s)"
| "json_dumps (PList xs) =
     (case sequence_exc (map json_dumps xs) of Inl e \<Rightarrow> Inl e | Inr js \<Rightarrow> Inr (JArr js))"
| "json_dumps (PTuple xs) =
     (case sequence_exc (map json_dumps xs) of Inl e \<Rightarrow> Inl e | Inr js \<Rightarrow> Inr (JArr js))"
| "json_dumps (PDict kvs) =
     (case sequence_exc (map dumps_item (map (map_prod (\<lambda>k. k) json_dumps) kvs)) of
        Inl e \<Rightarrow> Inl e
      | Inr ms \<Rightarrow> Inr (JObj ms))"
| "json_dumps (PObject c) =
     Inl (PyException ''TypeError'' (''Object of type '' @ c @ '' is not JSON serializable''))"

text \<open>
  \<^verbatim>\<open>d[k] = v\<close> on an insertion-ordered dictionary: an existing key keeps its place, a
  new key goes last. \<^verbatim>\<open>json.loads\<close> builds each object this way, member by member.
\<close>

fun dict_setitem :: "('k \<times> 'v) list \<Rightarrow> 'k \<Rightarrow> 'v \<Rightarrow> ('k \<times> 'v) list" where
  "dict_setitem [] k v = [(k, v)]"
| "dict_setitem ((k', v') # d) k v =
     (if k' = k then (k', v) # d else (k', v') # dict_setitem d k v)"

definition dict_of_pairs :: "('k \<times> 'v) list \<Rightarrow> ('k \<times> 'v) list" where
  "dict_of_pairs ps = foldl (\<lambda>d (k, v). dict_setitem d k v) [] ps"

primrec json_loads :: "json \<Rightarrow> pyval" where
  "json_loads JNull = PNone"
| "json_loads (JBool b) = PBool b"
| "json_loads (JInt i) = PInt i"
| "json_loads (JStr s) = PStr s"
| "json_loads (JArr js) = PList (map json_loads js)"
| "json_loads (JObj ms) = PDict (dict_of_pairs (map (map_prod KStr json_loads) ms))"


section \<open>The audit log table and the ambient Flask state\<close>

text \<open>
  One row of the table \<^verbatim>\<open>audit_logs\<close> (class \<^verbatim>\<open>AuditLog\<close>). A nullable column is an
  option; \<open>id_col\<close> is the column \<^verbatim>\<open>id\<close>. Instants are microseconds since the epoch.
\<close>

type_synonym datetime = int

record audit_log =
  id_col :: string
  user_id :: "string option"
  user_email :: "string option"
  session_id :: "string option"
  ip_address :: "string option"
  user_agent :: "string option"
  action :: "string option"
  resource_type :: "string option"
  resource_id :: "string option"
  service_name :: "string option"
  http_method :: "string option"
  endpoint :: "string option"
  request_payload :: "json option"
  response_status :: "int option"
  response_payload :: "json option"
  old_values :: "json option"
  new_values :: "json option"
  business_context :: "string option"
  risk_level :: "string option"
  compliance_flags :: "json option"
  timestamp :: datetime
  processing_time_ms :: "int option"
  status :: "string option"
  error_message :: "string option"
  metadata :: "json option"
  retention_period_days :: "int option"
  archived :: "bool option"
  archived_at :: "datetime option"

text \<open>
  \<^verbatim>\<open>flask.g\<close> and \<^verbatim>\<open>flask.request\<close> are proxies to the current application and request
  context. An attribute of \<^verbatim>\<open>g\<close> is either not set (\<open>Missing\<close>) or set to a value, which
  may be Python's \<^verbatim>\<open>None\<close>. Outside an application context every access to \<^verbatim>\<open>g\<close>
  raises \<^verbatim>\<open>RuntimeError\<close> (which \<^verbatim>\<open>getattr\<close> with a default does not absorb: it
  absorbs \<^verbatim>\<open>AttributeError\<close> only), and \<^verbatim>\<open>request\<close> is falsy outside a request context.
  \<^verbatim>\<open>request.get_json()\<close> returns the parsed body (\<open>Inr\<close>; \<^verbatim>\<open>None\<close> when there is
  none) or raises \<^verbatim>\<open>BadRequest\<close> with a description (\<open>Inl\<close>).
\<close>

datatype 'a pyattr = Missing | Attr 'a

fun getattr_default :: "'a pyattr \<Rightarrow> 'a \<Rightarrow> 'a" where
  "getattr_default Missing d = d"
| "getattr_default (Attr v) d = v"

record flask_g =
  g_user_id :: "string option pyattr"
  g_user_email :: "string option pyattr"
  g_session_id :: "string option pyattr"

record flask_request =
  req_remote_addr :: "string option"
  req_user_agent :: "string option"
  req_method :: string
  req_endpoint :: "string option"
  req_get_json :: "string + pyval"

datatype flask_ctx =
    NoContext
  | AppContext flask_g
  | RequestContext flask_g flask_request

fun ctx_g :: "flask_ctx \<Rightarrow> flask_g option" where
  "ctx_g NoContext = None"
| "ctx_g (AppContext g) = Some g"
| "ctx_g (RequestContext g rq) = Some g"

fun ctx_request :: "flask_ctx \<Rightarrow> flask_request option" where
  "ctx_request NoContext = None"
| "ctx_request (AppContext g) = None"
| "ctx_request (RequestContext g rq) = Some rq"

text \<open>
  The state the service works on: the ambient context, the rows of \<^verbatim>\<open>audit_logs\<close> in
  insertion order, and the lines printed to standard output.
\<close>

record world =
  ctx :: flask_ctx
  audit_logs :: "audit_log list"
  stdout :: "string list"

text \<open>
  What one insert reads from outside the program: the value \<^verbatim>\<open>uuid.uuid4()\<close> gives for
  the \<^verbatim>\<open>id\<close> default, the clock reading \<^verbatim>\<open>datetime.utcnow()\<close> gives for the
  \<^verbatim>\<open>timestamp\<close> default, and whether the store refuses the transaction
  (\<open>db_error = Some m\<close>: it is unavailable and raises with message \<open>m\<close>).
\<close>

record db_env =
  uuid4 :: string
  utcnow :: datetime
  db_error :: "string option"

section \<open>AuditService\<close>

text \<open>
  \<^verbatim>\<open>db.session.add(audit_log); db.session.commit()\<close>. The transaction fails when the
  store is unavailable, when a \<^verbatim>\<open>nullable=False\<close> column is null, or when the primary
  key is already in the table; a failed transaction leaves the table as it was.
\<close>

definition not_null_violation :: "audit_log \<Rightarrow> bool" where
  "not_null_violation r =
     (user_id r = None \<or> action r = None \<or> resource_type r = None \<or> service_name r = None)"

definition db_session_commit :: "db_env \<Rightarrow> audit_log \<Rightarrow> world \<Rightarrow> unit outcome \<times> world" where
  "db_session_commit env r w =
     (case db_error env of
        Some m \<Rightarrow> (Raised (PyException ''OperationalError'' m), w)
      | None \<Rightarrow>
          if not_null_violation r
          then (Raised (PyException ''IntegrityError'' ''NOT NULL constraint failed''), w)
          else if id_col r \<in> set (map id_col (audit_logs w))
          then (Raised (PyException ''IntegrityError'' ''UNIQUE constraint failed: audit_logs.id''), w)
          else (Returned (), w\<lparr>audit_logs := audit_logs w @ [r]\<rparr>))"

text \<open>\<^verbatim>\<open>json.dumps(v) if v else None\<close>\<close>

definition dumps_if_truthy :: "pyval \<Rightarrow> pyexc + json option" where
  "dumps_if_truthy v =
     (if truthy v
      then (case json_dumps v of Inl e \<Rightarrow> Inl e | Inr j \<Rightarrow> Inr (Some j))
      else Inr None)"

text \<open>\<^verbatim>\<open>json.dumps(request.get_json()) if request and request.get_json() else None\<close>\<close>

definition dumps_request_json :: "flask_request option \<Rightarrow> pyexc + json option" where
  "dumps_request_json request =
     (case request of
        None \<Rightarrow> Inr None
      | Some rq \<Rightarrow>
          (case req_get_json rq of
             Inl m \<Rightarrow> Inl (PyException ''BadRequest'' m)
           | Inr body \<Rightarrow> dumps_if_truthy body))"

text \<open>
  The constructor call \<^verbatim>\<open>AuditLog(user_id=..., ..., status='SUCCESS')\<close> of
  \<^verbatim>\<open>log_action\<close>, with the serialised payloads already computed. The columns the call
  does not name take their defaults at the insert (\<^verbatim>\<open>id\<close>, \<^verbatim>\<open>timestamp\<close>,
  \<^verbatim>\<open>retention_period_days\<close>, \<^verbatim>\<open>archived\<close>) or stay null.
\<close>

definition AuditLog ::
  "string option \<Rightarrow> string option \<Rightarrow> string option \<Rightarrow> flask_request option \<Rightarrow>
   string \<Rightarrow> string \<Rightarrow> string option \<Rightarrow> json option \<Rightarrow> json option \<Rightarrow> json option \<Rightarrow>
   string option \<Rightarrow> string \<Rightarrow> json option \<Rightarrow> db_env \<Rightarrow> audit_log" where
  "AuditLog user_id' user_email' session_id' request action' resource_type' resource_id'
       request_payload' old_json new_json business_context' risk_level' flags_json env =
     \<lparr> id_col = uuid4 env,
       user_id = user_id',
       user_email = user_email',
       session_id = session_id',
       ip_address = (case request of None \<Rightarrow> None | Some rq \<Rightarrow> req_remote_addr rq),
       user_agent = (case request of None \<Rightarrow> None | Some rq \<Rightarrow> req_user_agent rq),
       action = Some action',
       resource_type = Some resource_type',
       resource_id = resource_id',
       service_name = Some ''financial-advanced'',
       http_method = (case request of None \<Rightarrow> None | Some rq \<Rightarrow> Some (req_method rq)),
       endpoint = (case request of None \<Rightarrow> None | Some rq \<Rightarrow> req_endpoint rq),
       request_payload = request_payload',
       response_status = None,
       response_payload = None,
       old_values = old_json,
       new_values = new_json,
       business_context = business_context',
       risk_level = Some risk_level',
       compliance_flags = flags_json,
       timestamp = utcnow env,
       processing_time_ms = None,
       status = Some ''SUCCESS'',
       error_message = None,
       metadata = None,
       retention_period_days = Some 2555,
       archived = Some False,
       archived_at = None \<rparr>"

text \<open>
  The \<^verbatim>\<open>try\<close> block of \<^verbatim>\<open>AuditService.log_action\<close>: read the context, build the
  \<^verbatim>\<open>AuditLog\<close> (keyword arguments are evaluated in the order written), add and commit
  it, return its id.
\<close>

definition log_action_try ::
  "string \<Rightarrow> string \<Rightarrow> string option \<Rightarrow> pyval \<Rightarrow> pyval \<Rightarrow> string option \<Rightarrow> string \<Rightarrow> pyval \<Rightarrow>
   db_env \<Rightarrow> world \<Rightarrow> string outcome \<times> world" where
  "log_action_try action' resource_type' resource_id' old_values' new_values'
       business_context' risk_level' compliance_flags' env w =
     (case ctx_g (ctx w) of
        None \<Rightarrow>
          (Raised (PyException ''RuntimeError'' ''Working outside of application context.''), w)
      | Some g \<Rightarrow>
          let user_id' = getattr_default (g_user_id g) (Some ''system'');
              user_email' = getattr_default (g_user_email g) None;
              session_id' = getattr_default (g_session_id g) None;
              request = ctx_request (ctx w)
          in
          (case dumps_request_json request of
             Inl e \<Rightarrow> (Raised e, w)
           | Inr request_payload' \<Rightarrow>
          (case dumps_if_truthy old_values' of
             Inl e \<Rightarrow> (Raised e, w)
           | Inr old_json \<Rightarrow>
          (case dumps_if_truthy new_values' of
             Inl e \<Rightarrow> (Raised e, w)
           | Inr new_json \<Rightarrow>
          (case dumps_if_truthy compliance_flags' of
             Inl e \<Rightarrow> (Raised e, w)
           | Inr flags_json \<Rightarrow>
          let audit_log =
            AuditLog user_id' user_email' session_id' request action' resource_type'
              resource_id' request_payload' old_json new_json business_context' risk_level'
              flags_json env
          in
          (case db_session_commit env audit_log w of
             (Raised e, w') \<Rightarrow> (Raised e, w')
           | (Returned u, w') \<Rightarrow> (Returned (id_col audit_log), w')))))))"

text \<open>
  \<^verbatim>\<open>AuditService.log_action\<close>: the \<^verbatim>\<open>try\<close> block under \<^verbatim>\<open>except Exception as e\<close>,
  which prints a line and returns \<^verbatim>\<open>None\<close>. An exception that does not derive from
  \<^verbatim>\<open>Exception\<close> is not caught.
\<close>

definition log_action ::
  "string \<Rightarrow> string \<Rightarrow> string option \<Rightarrow> pyval \<Rightarrow> pyval \<Rightarrow> string option \<Rightarrow> string \<Rightarrow> pyval \<Rightarrow>
   db_env \<Rightarrow> world \<Rightarrow> string option outcome \<times> world" where
  "log_action action' resource_type' resource_id' old_values' new_values'
       business_context' risk_level' compliance_flags' env w =
     (case log_action_try action' resource_type' resource_id' old_values' new_values'
             business_context' risk_level' compliance_flags' env w of
        (Returned i, w') \<Rightarrow> (Returned (Some i), w')
      | (Raised e, w') \<Rightarrow>
          if isinstance_Exception e
          then (Returned None, w'\<lparr>stdout := stdout w' @ [''Audit logging failed: '' @ str_exc e]\<rparr>)
          else (Raised e, w'))"

text \<open>\<^verbatim>\<open>AuditService.log_error\<close>\<close>

definition log_error ::
  "string \<Rightarrow> string \<Rightarrow> string \<Rightarrow> string option \<Rightarrow> db_env \<Rightarrow> world \<Rightarrow> string option outcome \<times> world" where
  "log_error action' resource_type' error_message' resource_id' env w =
     log_action action' resource_type' resource_id' PNone PNone
       (Some (''Error occurred: '' @ error_message')) ''HIGH'' PNone env w"


text \<open>
  \<^verbatim>\<open>AuditService.get_audit_trail\<close>. Each \<^verbatim>\<open>if v:\<close> guard tests truthiness: a filter
  is added for a string that is neither \<^verbatim>\<open>None\<close> nor empty, and for any
  \<^verbatim>\<open>datetime\<close> (a \<^verbatim>\<open>datetime\<close> is always truthy). An SQL comparison with a null column
  is not true, so a row with a null column does not pass a filter on it. The store orders
  rows of equal timestamp as it likes; the model keeps their insertion order.
  \<open>limit' = None\<close> is the call that does not pass \<^verbatim>\<open>limit\<close> and gets the default.
\<close>

fun truthy_str :: "string option \<Rightarrow> bool" where
  "truthy_str None = False"
| "truthy_str (Some s) = (s \<noteq> [])"

definition order_by_timestamp_desc :: "audit_log list \<Rightarrow> audit_log list" where
  "order_by_timestamp_desc rows = sort_key (\<lambda>r. - timestamp r) rows"

definition get_audit_trail ::
  "string option \<Rightarrow> string option \<Rightarrow> string option \<Rightarrow> datetime option \<Rightarrow> datetime option \<Rightarrow>
   nat option \<Rightarrow> world \<Rightarrow> audit_log list" where
  "get_audit_trail resource_type' resource_id' user_id' start_date end_date limit' w =
     (let query0 = audit_logs w;
          query1 = (if truthy_str resource_type'
                    then filter (\<lambda>r. resource_type r = resource_type') query0 else query0);
          query2 = (if truthy_str resource_id'
                    then filter (\<lambda>r. resource_id r = resource_id') query1 else query1);
          query3 = (if truthy_str user_id'
                    then filter (\<lambda>r. user_id r = user_id') query2 else query2);
          query4 = (case start_date of
                      Some d \<Rightarrow> filter (\<lambda>r. timestamp r \<ge> d) query3
                    | None \<Rightarrow> query3);
          query5 = (case end_date of
                      Some d \<Rightarrow> filter (\<lambda>r. timestamp r \<le> d) query4
                    | None \<Rightarrow> query4)
      in take (case limit' of None \<Rightarrow> 100 | Some n \<Rightarrow> n) (order_by_timestamp_desc query5))"

section \<open>The decorator \<^verbatim>\<open>audit_required\<close>\<close>

text \<open>
  \<^verbatim>\<open>str.upper()\<close> on the ASCII letters (a Python identifier may hold other letters; they
  are left as they are here), and \<^verbatim>\<open>a or b\<close> on an optional string.
\<close>

definition upper_char :: "char \<Rightarrow> char" where
  "upper_char c =
     (case map_of (zip ''abcdefghijklmnopqrstuvwxyz'' ''ABCDEFGHIJKLMNOPQRSTUVWXYZ'') c of
        Some u \<Rightarrow> u
      | None \<Rightarrow> c)"

definition str_upper :: "string \<Rightarrow> string" where
  "str_upper s = map upper_char s"

fun py_or :: "string option \<Rightarrow> string \<Rightarrow> string" where
  "py_or None d = d"
| "py_or (Some s) d = (if s \<noteq> [] then s else d)"

text \<open>
  The \<^verbatim>\<open>except Exception as e\<close> clause of \<^verbatim>\<open>decorated_function\<close>: log the error and
  re-raise it (\<^verbatim>\<open>raise\<close>). An exception that does not derive from \<^verbatim>\<open>Exception\<close>
  passes through without a log entry.
\<close>

definition decorated_except ::
  "string option \<Rightarrow> string option \<Rightarrow> string \<Rightarrow> pyexc \<Rightarrow> db_env \<Rightarrow> world \<Rightarrow> 'a outcome \<times> world" where
  "decorated_except action' resource_type' f_name e env w =
     (if isinstance_Exception e
      then (case log_error (py_or action' (str_upper f_name)) (py_or resource_type' ''unknown'')
                   (str_exc e) None env w of
              (Returned i, w') \<Rightarrow> (Raised e, w')
            | (Raised e', w') \<Rightarrow> (Raised e', w'))
      else (Raised e, w))"

text \<open>
  \<^verbatim>\<open>decorated_function\<close>, the function \<^verbatim>\<open>audit_required(action, resource_type,
  risk_level)\<close> puts in place of \<^verbatim>\<open>f\<close>. The wrapped function \<open>f\<close> (with its arguments
  applied) runs on the state and returns or raises; \<open>f_name\<close> is \<^verbatim>\<open>f.__name__\<close>;
  \<open>start_time\<close> and \<open>end_time\<close> are the two readings of \<^verbatim>\<open>datetime.utcnow()\<close>. The call
  to \<^verbatim>\<open>log_action\<close> stands inside the \<^verbatim>\<open>try\<close>, so an exception from it would reach
  the \<^verbatim>\<open>except\<close> clause too.
\<close>

definition decorated_function ::
  "string option \<Rightarrow> string option \<Rightarrow> string \<Rightarrow> string \<Rightarrow> (world \<Rightarrow> 'a outcome \<times> world) \<Rightarrow>
   datetime \<Rightarrow> datetime \<Rightarrow> db_env \<Rightarrow> world \<Rightarrow> 'a outcome \<times> world" where
  "decorated_function action' resource_type' risk_level' f_name f start_time end_time env w =
     (case f w of
        (Returned result, w1) \<Rightarrow>
          let processing_time = real_of_int (end_time - start_time) / 1000000 * 1000 in
          (case log_action (py_or action' (str_upper f_name)) (py_or resource_type' ''unknown'')
                  None PNone PNone
                  (Some (''Function '' @ f_name @ '' executed successfully''))
                  risk_level' PNone env w1 of
             (Returned i, w2) \<Rightarrow> (Returned result, w2)
           | (Raised e, w2) \<Rightarrow> decorated_except action' resource_type' f_name e env w2)
      | (Raised e, w1) \<Rightarrow> decorated_except action' resource_type' f_name e env w1)"


section \<open>Derived notions used in the statements\<close>

text \<open>
  When the insert of a call to \<^verbatim>\<open>log_action\<close> without payloads goes through (the
  decorator passes no \<^verbatim>\<open>old_values\<close>, \<^verbatim>\<open>new_values\<close> or \<^verbatim>\<open>compliance_flags\<close>): an
  application context is bound, the user id it gives is not null, the request body (if
  any) can be read and serialised, the store is available and the fresh id is not in the
  table. Lemma \<open>log_action_Some_iff_accepted\<close> below proves that this is exactly when
  \<open>log_action\<close> returns an id.
\<close>

definition audit_write_accepted :: "db_env \<Rightarrow> world \<Rightarrow> bool" where
  "audit_write_accepted env w =
     (case ctx_g (ctx w) of
        None \<Rightarrow> False
      | Some g \<Rightarrow>
          getattr_default (g_user_id g) (Some ''system'') \<noteq> None \<and>
          (case dumps_request_json (ctx_request (ctx w)) of Inl e \<Rightarrow> False | Inr rp \<Rightarrow> True) \<and>
          db_error env = None \<and>
          uuid4 env \<notin> set (map id_col (audit_logs w)))"

text \<open>
  The Python values that \<^verbatim>\<open>json.loads\<close> can return: \<^verbatim>\<open>None\<close>, booleans, integers,
  strings, lists of such values, and dictionaries of such values under distinct string
  keys.
\<close>

fun is_KStr :: "pykey \<Rightarrow> bool" where
  "is_KStr (KStr s) = True"
| "is_KStr k = False"

primrec json_native :: "pyval \<Rightarrow> bool" where
  "json_native PNone = True"
| "json_native (PBool b) = True"
| "json_native (PInt i) = True"
| "json_native (PStr s) = True"
| "json_native (PList xs) = list_all (\<lambda>b. b) (map json_native xs)"
| "json_native (PTuple xs) = False"
| "json_native (PDict kvs) =
     (list_all (\<lambda>(k, b). is_KStr k \<and> b) (map (map_prod (\<lambda>k. k) json_native) kvs) \<and>
      distinct (map fst kvs))"
| "json_native (PObject c) = False"

subsection \<open>Concrete inputs for the worked examples\<close>

definition example_g :: flask_g where
  "example_g = \<lparr> g_user_id = Missing, g_user_email = Missing, g_session_id = Missing \<rparr>"

definition example_world :: world where
  "example_world = \<lparr> ctx = AppContext example_g, audit_logs = [], stdout = [] \<rparr>"

definition example_env :: db_env where
  "example_env = \<lparr> uuid4 = ''6f1c'', utcnow = 1700000000000000, db_error = None \<rparr>"

definition example_env_down :: db_env where
  "example_env_down =
     \<lparr> uuid4 = ''6f1c'', utcnow = 1700000000000000, db_error = Some ''connection refused'' \<rparr>"

definition health_check :: "world \<Rightarrow> pyval outcome \<times> world" where
  "health_check w = (Returned (PDict [(KStr ''status'', PStr ''healthy'')]), w)"

definition create_payment :: "world \<Rightarrow> pyval outcome \<times> world" where
  "create_payment w = (Raised (PyException ''ValueError'' ''insufficient funds''), w)"


text \<open>A table of five rows for the trail query, written in insertion order.\<close>

definition example_row :: "string \<Rightarrow> string \<Rightarrow> string option \<Rightarrow> datetime \<Rightarrow> audit_log" where
  "example_row i rt rid t =
     AuditLog (Some ''system'') None None None ''CREATE'' rt rid None None None None ''LOW'' None
       \<lparr> uuid4 = i, utcnow = t, db_error = None \<rparr>"

definition example_trail_world :: world where
  "example_trail_world =
     \<lparr> ctx = AppContext example_g,
       audit_logs =
         [example_row ''r1'' ''project'' (Some ''P1'') 10,
          example_row ''r2'' ''payment'' (Some ''P1'') 15,
          example_row ''r3'' ''project'' (Some ''P1'') 20,
          example_row ''r4'' ''project'' (Some ''P2'') 12,
          example_row ''r5'' ''project'' (Some ''P1'') 30],
       stdout = [] \<rparr>"

section \<open>Auxiliary lemmas\<close>

subsection \<open>Every failure inside the writer is an \<^verbatim>\<open>Exception\<close>\<close>

lemma sequence_exc_Inl: "sequence_exc rs = Inl e \<Longrightarrow> Inl e \<in> set rs"
  by (induction rs rule: sequence_exc.induct) (auto split: sum.splits)

lemma dumps_key_Exception: "dumps_key k = Inl e \<Longrightarrow> isinstance_Exception e"
  by (cases k) auto

lemma json_dumps_Exception: "json_dumps v = Inl e \<Longrightarrow> isinstance_Exception e"
proof (induction v arbitrary: e)
  case (PList xs)
  then show ?case
    by (auto split: sum.splits dest!: sequence_exc_Inl)
next
  case (PTuple xs)
  then show ?case
    by (auto split: sum.splits dest!: sequence_exc_Inl)
next
  case (PDict kvs)
  from PDict.prems obtain k v where kv: "(k, v) \<in> set kvs" and it: "dumps_item (k, json_dumps v) = Inl e"
    by (auto split: sum.splits dest!: sequence_exc_Inl)
  show ?case
  proof (cases "dumps_key k")
    case (Inl e')
    with it show ?thesis by (auto dest: dumps_key_Exception)
  next
    case (Inr s)
    with it have "json_dumps v = Inl e" by (auto split: sum.splits)
    with PDict.IH kv show ?thesis by fastforce
  qed
qed auto

lemma dumps_if_truthy_Exception: "dumps_if_truthy v = Inl e \<Longrightarrow> isinstance_Exception e"
  by (auto simp: dumps_if_truthy_def split: if_splits sum.splits dest: json_dumps_Exception)

lemma dumps_request_json_Exception: "dumps_request_json rq = Inl e \<Longrightarrow> isinstance_Exception e"
  by (auto simp: dumps_request_json_def split: option.splits sum.splits dest: dumps_if_truthy_Exception)

lemma db_session_commit_Raised:
  "db_session_commit env r w = (Raised e, w') \<Longrightarrow> isinstance_Exception e \<and> w' = w"
  by (auto simp: db_session_commit_def split: option.splits if_splits)

lemma db_session_commit_Returned:
  "db_session_commit env r w = (Returned u, w') \<Longrightarrow>
     w' = w\<lparr>audit_logs := audit_logs w @ [r]\<rparr> \<and> db_error env = None \<and> \<not> not_null_violation r
     \<and> id_col r \<notin> set (map id_col (audit_logs w))"
  by (auto simp: db_session_commit_def split: option.splits if_splits)

lemma log_action_try_Raised:
  "log_action_try a rt rid ov nv bc rl cf env w = (Raised e, w') \<Longrightarrow>
     isinstance_Exception e \<and> w' = w"
  unfolding log_action_try_def Let_def
  by (auto split: option.splits sum.splits prod.splits outcome.splits
      dest: dumps_if_truthy_Exception dumps_request_json_Exception db_session_commit_Raised)

lemma log_action_try_Returned:
  "log_action_try a rt rid ov nv bc rl cf env w = (Returned i, w') \<Longrightarrow>
     \<exists>g rp oj nj fj.
       ctx_g (ctx w) = Some g \<and>
       dumps_request_json (ctx_request (ctx w)) = Inr rp \<and>
       dumps_if_truthy ov = Inr oj \<and> dumps_if_truthy nv = Inr nj \<and> dumps_if_truthy cf = Inr fj \<and>
       i = uuid4 env \<and>
       w' = w\<lparr>audit_logs := audit_logs w @
              [AuditLog (getattr_default (g_user_id g) (Some ''system''))
                 (getattr_default (g_user_email g) None) (getattr_default (g_session_id g) None)
                 (ctx_request (ctx w)) a rt rid rp oj nj bc rl fj env]\<rparr> \<and>
       db_error env = None \<and> getattr_default (g_user_id g) (Some ''system'') \<noteq> None \<and>
       uuid4 env \<notin> set (map id_col (audit_logs w))"
  unfolding log_action_try_def Let_def
  by (auto split: option.splits sum.splits prod.splits outcome.splits
      dest!: db_session_commit_Returned simp: AuditLog_def not_null_violation_def)


lemma log_action_never_raises:
  "\<exists>r w'. log_action a rt rid ov nv bc rl cf env w = (Returned r, w')"
proof (cases "log_action_try a rt rid ov nv bc rl cf env w")
  case (Pair out w1)
  show ?thesis
  proof (cases out)
    case (Returned i)
    with Pair show ?thesis by (simp add: log_action_def)
  next
    case (Raised e)
    with Pair have "isinstance_Exception e" by (auto dest: log_action_try_Raised)
    with Pair Raised show ?thesis by (simp add: log_action_def)
  qed
qed

lemma log_action_None:
  "log_action a rt rid ov nv bc rl cf env w = (Returned None, w') \<Longrightarrow>
     \<exists>e. log_action_try a rt rid ov nv bc rl cf env w = (Raised e, w) \<and>
         w' = w\<lparr>stdout := stdout w @ [''Audit logging failed: '' @ str_exc e]\<rparr>"
  by (auto simp: log_action_def split: prod.splits outcome.splits if_splits
      dest: log_action_try_Raised)

lemma log_action_Some:
  "log_action a rt rid ov nv bc rl cf env w = (Returned (Some i), w') \<Longrightarrow>
     log_action_try a rt rid ov nv bc rl cf env w = (Returned i, w')"
  by (auto simp: log_action_def split: prod.splits outcome.splits if_splits)

lemma log_action_try_accepts:
  assumes "ctx_g (ctx w) = Some g"
    and "dumps_request_json (ctx_request (ctx w)) = Inr rp"
    and "dumps_if_truthy ov = Inr oj" and "dumps_if_truthy nv = Inr nj"
    and "dumps_if_truthy cf = Inr fj"
    and "db_error env = None"
    and "getattr_default (g_user_id g) (Some ''system'') \<noteq> None"
    and "uuid4 env \<notin> set (map id_col (audit_logs w))"
  shows "log_action_try a rt rid ov nv bc rl cf env w =
     (Returned (uuid4 env),
      w\<lparr>audit_logs := audit_logs w @
              [AuditLog (getattr_default (g_user_id g) (Some ''system''))
                 (getattr_default (g_user_email g) None) (getattr_default (g_session_id g) None)
                 (ctx_request (ctx w)) a rt rid rp oj nj bc rl fj env]\<rparr>)"
proof -
  let ?r = "AuditLog (getattr_default (g_user_id g) (Some ''system''))
                 (getattr_default (g_user_email g) None) (getattr_default (g_session_id g) None)
                 (ctx_request (ctx w)) a rt rid rp oj nj bc rl fj env"
  have "\<not> not_null_violation ?r" and "id_col ?r = uuid4 env"
    using assms(7) by (simp_all add: not_null_violation_def AuditLog_def)
  with assms(6,8) have "db_session_commit env ?r w = (Returned (), w\<lparr>audit_logs := audit_logs w @ [?r]\<rparr>)"
    by (simp add: db_session_commit_def)
  with assms(1-5) \<open>id_col ?r = uuid4 env\<close> show ?thesis
    by (simp add: log_action_try_def Let_def)
qed

lemma decorated_function_Returned:
  assumes "f w = (Returned v, w1)"
  shows "decorated_function a rt rl n f t0 t1 env w =
     (Returned v, snd (log_action (py_or a (str_upper n)) (py_or rt ''unknown'') None PNone PNone
        (Some (''Function '' @ n @ '' executed successfully'')) rl PNone env w1))"
proof -
  obtain r w2 where "log_action (py_or a (str_upper n)) (py_or rt ''unknown'') None PNone PNone
        (Some (''Function '' @ n @ '' executed successfully'')) rl PNone env w1 = (Returned r, w2)"
    using log_action_never_raises by blast
  with assms show ?thesis by (simp add: decorated_function_def)
qed

lemma decorated_except_Exception:
  assumes "isinstance_Exception e"
  shows "decorated_except a rt n e env w =
     (Raised e, snd (log_error (py_or a (str_upper n)) (py_or rt ''unknown'') (str_exc e) None env w))"
proof -
  obtain r w2 where "log_error (py_or a (str_upper n)) (py_or rt ''unknown'') (str_exc e) None env w
      = (Returned r, w2)"
    unfolding log_error_def using log_action_never_raises by blast
  with assms show ?thesis by (simp add: decorated_except_def)
qed

lemma decorated_function_Raised:
  assumes "f w = (Raised e, w1)"
  shows "decorated_function a rt rl n f t0 t1 env w =
     (if isinstance_Exception e
      then (Raised e, snd (log_error (py_or a (str_upper n)) (py_or rt ''unknown'') (str_exc e) None env w1))
      else (Raised e, w1))"
  using assms
  by (simp add: decorated_function_def decorated_except_Exception) (simp add: decorated_except_def)


lemma log_action_effect:
  assumes "log_action a rt rid ov nv bc rl cf env w = (out, w')"
  shows "ctx w' = ctx w \<and>
     ((out = Returned None \<and> audit_logs w' = audit_logs w) \<or>
      (\<exists>g rp oj nj fj.
         ctx_g (ctx w) = Some g \<and>
         dumps_request_json (ctx_request (ctx w)) = Inr rp \<and>
         dumps_if_truthy ov = Inr oj \<and> dumps_if_truthy nv = Inr nj \<and>
         dumps_if_truthy cf = Inr fj \<and>
         db_error env = None \<and> getattr_default (g_user_id g) (Some ''system'') \<noteq> None \<and>
         uuid4 env \<notin> set (map id_col (audit_logs w)) \<and>
         out = Returned (Some (uuid4 env)) \<and> stdout w' = stdout w \<and>
         audit_logs w' = audit_logs w @
           [AuditLog (getattr_default (g_user_id g) (Some ''system''))
              (getattr_default (g_user_email g) None) (getattr_default (g_session_id g) None)
              (ctx_request (ctx w)) a rt rid rp oj nj bc rl fj env]))"
proof -
  obtain r where out: "out = Returned r"
    using assms log_action_never_raises[of a rt rid ov nv bc rl cf env w] by auto
  show ?thesis
  proof (cases r)
    case None
    with assms out show ?thesis by (auto dest!: log_action_None)
  next
    case (Some i)
    with assms out have "log_action_try a rt rid ov nv bc rl cf env w = (Returned i, w')"
      by (auto dest: log_action_Some)
    from log_action_try_Returned[OF this] out Some show ?thesis by auto
  qed
qed

lemma dumps_if_truthy_PNone: "dumps_if_truthy PNone = Inr None"
  by (simp add: dumps_if_truthy_def)

lemma log_action_accepted:
  assumes "audit_write_accepted env w"
  shows "\<exists>r. log_action a rt rid PNone PNone bc rl PNone env w =
            (Returned (Some (uuid4 env)), w\<lparr>audit_logs := audit_logs w @ [r]\<rparr>) \<and>
          id_col r = uuid4 env \<and> action r = Some a \<and> resource_type r = Some rt \<and>
          resource_id r = rid \<and> business_context r = bc \<and> risk_level r = Some rl \<and>
          status r = Some ''SUCCESS'' \<and> error_message r = None \<and>
          processing_time_ms r = None \<and> old_values r = None \<and> new_values r = None \<and>
          timestamp r = utcnow env \<and> user_id r = getattr_default (case ctx_g (ctx w) of Some g \<Rightarrow> g_user_id g | None \<Rightarrow> Missing) (Some ''system'')"
proof -
  from assms obtain g rp where g: "ctx_g (ctx w) = Some g"
    and u: "getattr_default (g_user_id g) (Some ''system'') \<noteq> None"
    and rp: "dumps_request_json (ctx_request (ctx w)) = Inr rp"
    and d: "db_error env = None" and f: "uuid4 env \<notin> set (map id_col (audit_logs w))"
    by (auto simp: audit_write_accepted_def split: option.splits sum.splits)
  let ?r = "AuditLog (getattr_default (g_user_id g) (Some ''system''))
                 (getattr_default (g_user_email g) None) (getattr_default (g_session_id g) None)
                 (ctx_request (ctx w)) a rt rid rp None None bc rl None env"
  have "log_action_try a rt rid PNone PNone bc rl PNone env w =
     (Returned (uuid4 env), w\<lparr>audit_logs := audit_logs w @ [?r]\<rparr>)"
    by (rule log_action_try_accepts[OF g rp dumps_if_truthy_PNone dumps_if_truthy_PNone
          dumps_if_truthy_PNone d u f])
  then have "log_action a rt rid PNone PNone bc rl PNone env w =
            (Returned (Some (uuid4 env)), w\<lparr>audit_logs := audit_logs w @ [?r]\<rparr>)"
    by (simp add: log_action_def)
  then show ?thesis using g
    by (intro exI[of _ ?r]) (simp add: AuditLog_def)
qed

lemma log_action_not_accepted:
  assumes "\<not> audit_write_accepted env w"
  shows "\<exists>m. log_action a rt rid ov nv bc rl cf env w = (Returned None, w\<lparr>stdout := stdout w @ [m]\<rparr>)"
proof -
  obtain out w' where eq: "log_action a rt rid ov nv bc rl cf env w = (out, w')"
    by (cases "log_action a rt rid ov nv bc rl cf env w") 
  from log_action_effect[OF eq] assms have "out = Returned None"
    by (auto simp: audit_write_accepted_def split: option.splits sum.splits)
  with eq show ?thesis by (auto dest!: log_action_None)
qed

lemma log_action_Some_iff_accepted:
  "(\<exists>i w'. log_action a rt rid PNone PNone bc rl PNone env w = (Returned (Some i), w'))
     \<longleftrightarrow> audit_write_accepted env w"
  using log_action_accepted[of env w a rt rid bc rl]
    log_action_not_accepted[of env w a rt rid PNone PNone bc rl PNone]
  by (cases "audit_write_accepted env w") auto

subsection \<open>What one call of the decorated function does to the table\<close>

lemma decorated_function_Returned_accepted:
  assumes "f w = (Returned v, w1)" and "audit_write_accepted env w1"
  shows "\<exists>r. decorated_function a rt rl n f t0 t1 env w =
            (Returned v, w1\<lparr>audit_logs := audit_logs w1 @ [r]\<rparr>) \<and>
          action r = Some (py_or a (str_upper n)) \<and>
          resource_type r = Some (py_or rt ''unknown'') \<and> resource_id r = None \<and>
          business_context r = Some (''Function '' @ n @ '' executed successfully'') \<and>
          risk_level r = Some rl \<and> status r = Some ''SUCCESS'' \<and> error_message r = None \<and>
          processing_time_ms r = None"
  using log_action_accepted[OF assms(2), of "py_or a (str_upper n)" "py_or rt ''unknown''" None
      "Some (''Function '' @ n @ '' executed successfully'')" rl]
  by (auto simp: decorated_function_Returned[where f=f and w=w, OF assms(1)])

lemma decorated_function_Returned_refused:
  assumes "f w = (Returned v, w1)" and "\<not> audit_write_accepted env w1"
  shows "\<exists>m. decorated_function a rt rl n f t0 t1 env w =
            (Returned v, w1\<lparr>stdout := stdout w1 @ [m]\<rparr>)"
  using log_action_not_accepted[OF assms(2), of "py_or a (str_upper n)" "py_or rt ''unknown''" None
      PNone PNone "Some (''Function '' @ n @ '' executed successfully'')" rl PNone]
  by (auto simp: decorated_function_Returned[where f=f and w=w, OF assms(1)])

lemma decorated_function_Raised_accepted:
  assumes "f w = (Raised e, w1)" and "isinstance_Exception e" and "audit_write_accepted env w1"
  shows "\<exists>r. decorated_function a rt rl n f t0 t1 env w =
            (Raised e, w1\<lparr>audit_logs := audit_logs w1 @ [r]\<rparr>) \<and>
          action r = Some (py_or a (str_upper n)) \<and>
          resource_type r = Some (py_or rt ''unknown'') \<and> resource_id r = None \<and>
          business_context r = Some (''Error occurred: '' @ str_exc e) \<and>
          risk_level r = Some ''HIGH'' \<and> status r = Some ''SUCCESS'' \<and> error_message r = None \<and>
          processing_time_ms r = None"
  using log_action_accepted[OF assms(3), of "py_or a (str_upper n)" "py_or rt ''unknown''" None
      "Some (''Error occurred: '' @ str_exc e)" "''HIGH''"] assms(2)
  by (auto simp: decorated_function_Raised[where f=f and w=w, OF assms(1)] log_error_def)

lemma decorated_function_Raised_refused:
  assumes "f w = (Raised e, w1)" and "isinstance_Exception e" and "\<not> audit_write_accepted env w1"
  shows "\<exists>m. decorated_function a rt rl n f t0 t1 env w =
            (Raised e, w1\<lparr>stdout := stdout w1 @ [m]\<rparr>)"
  using log_action_not_accepted[OF assms(3), of "py_or a (str_upper n)" "py_or rt ''unknown''" None
      PNone PNone "Some (''Error occurred: '' @ str_exc e)" "''HIGH''" PNone] assms(2)
  by (auto simp: decorated_function_Raised[where f=f and w=w, OF assms(1)] log_error_def)

lemma decorated_function_Raised_BaseException:
  assumes "f w = (Raised e, w1)" and "\<not> isinstance_Exception e"
  shows "decorated_function a rt rl n f t0 t1 env w = (Raised e, w1)"
  using assms(2) by (simp add: decorated_function_Raised[where f=f and w=w, OF assms(1)])

lemma example_accepted: "audit_write_accepted example_env example_world"
  by (simp add: audit_write_accepted_def example_env_def example_world_def example_g_def
      dumps_request_json_def)

lemma example_down_refused: "\<not> audit_write_accepted example_env_down example_world"
  by (simp add: audit_write_accepted_def example_env_down_def example_world_def example_g_def
      dumps_request_json_def)


lemma decorated_function_effect:
  assumes "f w = (out, w1)"
  shows "\<exists>w2. decorated_function a rt rl n f t0 t1 env w = (out, w2) \<and>
     (if audit_write_accepted env w1 \<and>
         (case out of Returned v \<Rightarrow> True | Raised e \<Rightarrow> isinstance_Exception e)
      then \<exists>r. audit_logs w2 = audit_logs w1 @ [r] \<and>
               action r = Some (py_or a (str_upper n)) \<and>
               resource_type r = Some (py_or rt ''unknown'') \<and>
               resource_id r = None \<and> status r = Some ''SUCCESS'' \<and>
               error_message r = None \<and> processing_time_ms r = None
      else audit_logs w2 = audit_logs w1)"
proof (cases out)
  case (Returned v)
  with assms have h: "f w = (Returned v, w1)" by simp
  show ?thesis
  proof (cases "audit_write_accepted env w1")
    case True
    from decorated_function_Returned_accepted[where f=f and w=w, OF h True, of a rt rl n t0 t1]
    show ?thesis using True Returned by auto
  next
    case False
    from decorated_function_Returned_refused[where f=f and w=w, OF h False, of a rt rl n t0 t1]
    show ?thesis using False Returned by auto
  qed
next
  case (Raised e)
  with assms have h: "f w = (Raised e, w1)" by simp
  show ?thesis
  proof (cases "isinstance_Exception e")
    case exc: True
    show ?thesis
    proof (cases "audit_write_accepted env w1")
      case True
      from decorated_function_Raised_accepted[where f=f and w=w, OF h exc True, of a rt rl n t0 t1]
      show ?thesis using True Raised exc by auto
    next
      case False
      from decorated_function_Raised_refused[where f=f and w=w, OF h exc False, of a rt rl n t0 t1]
      show ?thesis using False Raised by auto
    qed
  next
    case False
    from decorated_function_Raised_BaseException[where f=f and w=w, OF h False, of a rt rl n t0 t1]
    show ?thesis using False Raised by auto
  qed
qed

lemma create_payment_raises:
  "create_payment example_world =
     (Raised (PyException ''ValueError'' ''insufficient funds''), example_world)"
  by (simp add: create_payment_def)

lemma health_check_returns:
  "health_check example_world =
     (Returned (PDict [(KStr ''status'', PStr ''healthy'')]), example_world)"
  by (simp add: health_check_def)


lemma example_log_action:
  "log_action ''LOGIN'' ''user'' None PNone PNone None ''LOW'' PNone example_env example_world =
     (Returned (Some ''6f1c''),
      example_world\<lparr>audit_logs := [AuditLog (Some ''system'') None None None ''LOGIN'' ''user''
         None None None None None ''LOW'' None example_env]\<rparr>)"
  by (simp add: log_action_def log_action_try_def db_session_commit_def not_null_violation_def
      AuditLog_def example_env_def example_world_def example_g_def dumps_request_json_def
      dumps_if_truthy_def Let_def)


subsection \<open>The trail query\<close>

lemma order_by_timestamp_desc_sorted:
  "sorted_wrt (\<lambda>r1 r2. timestamp r1 \<ge> timestamp r2) (order_by_timestamp_desc rows)"
proof -
  have "sorted (map (\<lambda>r. - timestamp r) (sort_key (\<lambda>r. - timestamp r) rows))"
    by (rule sorted_sort_key)
  then show ?thesis
    by (simp add: order_by_timestamp_desc_def sorted_map)
qed


lemma set_order_by_timestamp_desc: "set (order_by_timestamp_desc rows) = set rows"
  by (simp add: order_by_timestamp_desc_def)


subsection \<open>Encoding and decoding JSON-native values\<close>

lemma dict_setitem_fresh: "k \<notin> fst ` set d \<Longrightarrow> dict_setitem d k v = d @ [(k, v)]"
  by (induction d) auto

lemma foldl_dict_setitem_distinct:
  "distinct (map fst (d @ ps)) \<Longrightarrow> foldl (\<lambda>d (k, v). dict_setitem d k v) d ps = d @ ps"
proof (induction ps arbitrary: d)
  case Nil
  then show ?case by simp
next
  case (Cons p ps)
  obtain k v where p: "p = (k, v)" by (cases p)
  from Cons.prems p have fresh: "k \<notin> fst ` set d" by auto
  from Cons.prems p have "distinct (map fst ((d @ [(k, v)]) @ ps))" by simp
  from Cons.IH[OF this] fresh p show ?case by (simp add: dict_setitem_fresh)
qed

lemma dict_of_pairs_distinct: "distinct (map fst ps) \<Longrightarrow> dict_of_pairs ps = ps"
  using foldl_dict_setitem_distinct[of "[]" ps] by (simp add: dict_of_pairs_def)

lemma sequence_exc_roundtrip_list:
  assumes "\<forall>x \<in> set xs. (case json_dumps x of Inl e \<Rightarrow> False | Inr j \<Rightarrow> json_loads j = x)"
  shows "case sequence_exc (map json_dumps xs) of
           Inl e \<Rightarrow> False | Inr js \<Rightarrow> map json_loads js = xs"
  using assms by (induction xs) (auto split: sum.splits)

lemma sequence_exc_roundtrip_items:
  assumes "\<forall>kv \<in> set kvs. is_KStr (fst kv) \<and>
             (case json_dumps (snd kv) of Inl e \<Rightarrow> False | Inr j \<Rightarrow> json_loads j = snd kv)"
  shows "case sequence_exc (map dumps_item (map (map_prod (\<lambda>k. k) json_dumps) kvs)) of
           Inl e \<Rightarrow> False | Inr ms \<Rightarrow> map (map_prod KStr json_loads) ms = kvs"
  using assms
proof (induction kvs)
  case Nil
  then show ?case by simp
next
  case (Cons kv kvs)
  obtain k v where kv: "kv = (k, v)" by (cases kv)
  from Cons.prems kv obtain s where k: "k = KStr s" by (cases k) auto
  from Cons.prems kv obtain j where j: "json_dumps v = Inr j" "json_loads j = v"
    by (auto split: sum.splits)
  from Cons.IH Cons.prems obtain ms where
    ms: "sequence_exc (map dumps_item (map (map_prod (\<lambda>k. k) json_dumps) kvs)) = Inr ms"
        "map (map_prod KStr json_loads) ms = kvs"
    by (auto split: sum.splits)
  show ?case using kv k j ms by simp
qed

lemma json_native_roundtrip:
  "json_native v \<Longrightarrow> (case json_dumps v of Inl e \<Rightarrow> False | Inr j \<Rightarrow> json_loads j = v)"
proof (induction v)
  case (PList xs)
  then have "\<forall>x \<in> set xs. (case json_dumps x of Inl e \<Rightarrow> False | Inr j \<Rightarrow> json_loads j = x)"
    by (auto simp: list_all_iff)
  from sequence_exc_roundtrip_list[OF this] show ?case by (auto split: sum.splits)
next
  case (PDict kvs)
  from PDict.prems have d: "distinct (map fst kvs)" by simp
  have "\<forall>kv \<in> set kvs. is_KStr (fst kv) \<and>
             (case json_dumps (snd kv) of Inl e \<Rightarrow> False | Inr j \<Rightarrow> json_loads j = snd kv)"
  proof
    fix kv assume kv: "kv \<in> set kvs"
    obtain k v where p: "kv = (k, v)" by (cases kv)
    from PDict.prems kv p have n: "is_KStr k" "json_native v"
      by (auto simp: list_all_iff)
    have "v \<in> Basic_BNFs.snds kv" using p by simp
    from PDict.IH[OF kv this n(2)] n(1) p
    show "is_KStr (fst kv) \<and>
             (case json_dumps (snd kv) of Inl e \<Rightarrow> False | Inr j \<Rightarrow> json_loads j = snd kv)"
      by (simp split: sum.splits)
  qed
  from sequence_exc_roundtrip_items[OF this] d show ?case
    by (auto split: sum.splits simp: dict_of_pairs_distinct)
qed simp_all

lemma dumps_if_truthy_roundtrip:
  assumes "dumps_if_truthy v = Inr oj"
  shows "if truthy v then (json_native v \<longrightarrow> map_option json_loads oj = Some v) else oj = None"
  using assms json_native_roundtrip[of v]
  by (auto simp: dumps_if_truthy_def split: if_splits sum.splits)

lemma get_audit_trail_all:
  "set (get_audit_trail None None None None None (Some (length (audit_logs w))) w)
     = set (audit_logs w)"
  by (simp add: get_audit_trail_def order_by_timestamp_desc_def)

lemma example_update:
  "log_action ''UPDATE'' ''project'' (Some ''P1'')
      (PDict [(KStr ''budget'', PInt 100)])
      (PDict [(KStr ''budget'', PInt 250), (KStr ''tags'', PList [PStr ''urgent''])])
      None ''MEDIUM'' PNone example_env example_world =
   (Returned (Some ''6f1c''),
    snd (log_action ''UPDATE'' ''project'' (Some ''P1'')
      (PDict [(KStr ''budget'', PInt 100)])
      (PDict [(KStr ''budget'', PInt 250), (KStr ''tags'', PList [PStr ''urgent''])])
      None ''MEDIUM'' PNone example_env example_world))"
  by (simp add: log_action_def log_action_try_def db_session_commit_def not_null_violation_def
      AuditLog_def example_env_def example_world_def example_g_def dumps_request_json_def
      dumps_if_truthy_def Let_def)


section \<open>The claims\<close>

text \<open>
  Claim C3, as amended. When the wrapped operation returns normally, the decorated
  function returns the same result, and it persists at most one audit record: exactly
  one, with status \<^verbatim>\<open>SUCCESS\<close> and the declared risk level, when the audit write is
  accepted; none when the write fails (the failure is swallowed by \<^verbatim>\<open>log_action\<close>).
\<close>

theorem decorated_function_success_record:
  assumes "f w = (Returned v, w1)"
  shows "\<exists>w2. decorated_function a rt rl n f t0 t1 env w = (Returned v, w2) \<and>
     (if audit_write_accepted env w1
      then \<exists>r. audit_logs w2 = audit_logs w1 @ [r] \<and> status r = Some ''SUCCESS'' \<and>
               risk_level r = Some rl
      else audit_logs w2 = audit_logs w1)"
proof (cases "audit_write_accepted env w1")
  case True
  from decorated_function_Returned_accepted[where f=f and w=w, OF assms True, of a rt rl n t0 t1]
  show ?thesis using True by auto
next
  case False
  from decorated_function_Returned_refused[where f=f and w=w, OF assms False, of a rt rl n t0 t1]
  show ?thesis using False by auto
qed

theorem decorated_function_success_record_witness:
  "health_check example_world =
      (Returned (PDict [(KStr ''status'', PStr ''healthy'')]), example_world) \<and>
   audit_write_accepted example_env example_world \<and>
   (\<exists>w2. decorated_function (Some ''HEALTH_CHECK'') (Some ''system'') ''LOW'' ''health_check''
            health_check 0 1 example_env example_world
          = (Returned (PDict [(KStr ''status'', PStr ''healthy'')]), w2) \<and>
      (\<exists>r. audit_logs w2 = audit_logs example_world @ [r] \<and> status r = Some ''SUCCESS'' \<and>
           risk_level r = Some ''LOW''))"
proof -
  have h: "health_check example_world =
      (Returned (PDict [(KStr ''status'', PStr ''healthy'')]), example_world)"
    by (simp add: health_check_def)
  show ?thesis
    using h example_accepted
      decorated_function_success_record[where f=health_check and w=example_world, OF h,
        of "Some ''HEALTH_CHECK''" "Some ''system''" "''LOW''" "''health_check''" 0 1 example_env]
    by simp
qed


text \<open>
  Claim C3 as stated fails when the store is unavailable: the health check returns
  normally, and the table is as empty after the decorated call as before it.
\<close>

theorem decorated_function_success_store_down:
  "fst (health_check example_world) = Returned (PDict [(KStr ''status'', PStr ''healthy'')]) \<and>
   audit_logs (snd (health_check example_world)) = [] \<and>
   audit_logs (snd (decorated_function (Some ''HEALTH_CHECK'') (Some ''system'') ''LOW''
       ''health_check'' health_check 0 1 example_env_down example_world)) = []"
  by (simp add: health_check_def decorated_function_def log_action_def log_action_try_def
      db_session_commit_def example_env_down_def example_world_def example_g_def
      dumps_request_json_def dumps_if_truthy_def Let_def)

text \<open>
  Claim C1, as amended. When the wrapped operation raises an exception that derives from
  \<^verbatim>\<open>Exception\<close>, the decorated function re-raises it and persists at most one audit
  record: exactly one, whose business context is \<^verbatim>\<open>Error occurred: \<close> followed by the
  text of the exception, when the audit write is accepted; none when the write fails.
\<close>

theorem decorated_function_failure_record:
  assumes "f w = (Raised e, w1)" and "isinstance_Exception e"
  shows "\<exists>w2. decorated_function a rt rl n f t0 t1 env w = (Raised e, w2) \<and>
     (if audit_write_accepted env w1
      then \<exists>r. audit_logs w2 = audit_logs w1 @ [r] \<and>
               business_context r = Some (''Error occurred: '' @ str_exc e)
      else audit_logs w2 = audit_logs w1)"
proof (cases "audit_write_accepted env w1")
  case True
  from decorated_function_Raised_accepted[where f=f and w=w, OF assms True, of a rt rl n t0 t1]
  show ?thesis using True by auto
next
  case False
  from decorated_function_Raised_refused[where f=f and w=w, OF assms False, of a rt rl n t0 t1]
  show ?thesis using False by auto
qed

theorem decorated_function_failure_record_witness:
  "create_payment example_world =
     (Raised (PyException ''ValueError'' ''insufficient funds''), example_world) \<and>
   isinstance_Exception (PyException ''ValueError'' ''insufficient funds'') \<and>
   audit_write_accepted example_env example_world \<and>
   (\<exists>w2. decorated_function (Some ''CREATE'') (Some ''payment'') ''MEDIUM'' ''create_payment''
            create_payment 0 1 example_env example_world
          = (Raised (PyException ''ValueError'' ''insufficient funds''), w2) \<and>
      (\<exists>r. audit_logs w2 = audit_logs example_world @ [r] \<and>
           business_context r = Some ''Error occurred: insufficient funds''))"
proof -
  have e: "isinstance_Exception (PyException ''ValueError'' ''insufficient funds'')" by simp
  show ?thesis
    using create_payment_raises e example_accepted
      decorated_function_failure_record[where f=create_payment and w=example_world,
        OF create_payment_raises e,
        of "Some ''CREATE''" "Some ''payment''" "''MEDIUM''" "''create_payment''" 0 1 example_env]
    by simp
qed


text \<open>
  Claim C1 as stated fails. With the store unavailable the failed payment leaves no record;
  with the store available the one record it leaves has status \<^verbatim>\<open>SUCCESS\<close> (the
  constructor call in \<^verbatim>\<open>log_action\<close> fixes it) and a null \<^verbatim>\<open>error_message\<close>.
\<close>

theorem decorated_function_failure_status_success:
  "audit_logs (snd (decorated_function (Some ''CREATE'') (Some ''payment'') ''MEDIUM''
       ''create_payment'' create_payment 0 1 example_env_down example_world)) = [] \<and>
   map status (audit_logs (snd (decorated_function (Some ''CREATE'') (Some ''payment'') ''MEDIUM''
       ''create_payment'' create_payment 0 1 example_env example_world))) = [Some ''SUCCESS''] \<and>
   map error_message (audit_logs (snd (decorated_function (Some ''CREATE'') (Some ''payment'')
       ''MEDIUM'' ''create_payment'' create_payment 0 1 example_env example_world))) = [None]"
  by (simp add: create_payment_def decorated_function_def decorated_except_def log_error_def
      log_action_def log_action_try_def db_session_commit_def not_null_violation_def AuditLog_def
      example_env_down_def example_env_def example_world_def example_g_def
      dumps_request_json_def dumps_if_truthy_def Let_def)


text \<open>
  Claim C4. When the wrapped operation raises, the decorated function raises the same
  exception, and the record it persists has risk level \<^verbatim>\<open>HIGH\<close> whatever risk level
  \<open>rl\<close> was declared. A record is persisted when the exception derives from
  \<^verbatim>\<open>Exception\<close> and the audit write is accepted; otherwise the table is unchanged.
\<close>

theorem decorated_function_failure_high_risk:
  assumes "f w = (Raised e, w1)"
  shows "\<exists>w2. decorated_function a rt rl n f t0 t1 env w = (Raised e, w2) \<and>
     (if audit_write_accepted env w1 \<and> isinstance_Exception e
      then \<exists>r. audit_logs w2 = audit_logs w1 @ [r] \<and> risk_level r = Some ''HIGH''
      else audit_logs w2 = audit_logs w1)"
proof (cases "isinstance_Exception e")
  case exc: True
  show ?thesis
  proof (cases "audit_write_accepted env w1")
    case True
    from decorated_function_Raised_accepted[where f=f and w=w, OF assms exc True, of a rt rl n t0 t1]
    show ?thesis using True exc by auto
  next
    case False
    from decorated_function_Raised_refused[where f=f and w=w, OF assms exc False, of a rt rl n t0 t1]
    show ?thesis using False by auto
  qed
next
  case False
  from decorated_function_Raised_BaseException[where f=f and w=w, OF assms False, of a rt rl n t0 t1]
  show ?thesis using False by auto
qed

theorem decorated_function_failure_high_risk_witness:
  "create_payment example_world =
     (Raised (PyException ''ValueError'' ''insufficient funds''), example_world) \<and>
   (\<exists>w2. decorated_function (Some ''CREATE'') (Some ''payment'') ''MEDIUM'' ''create_payment''
            create_payment 0 1 example_env example_world
          = (Raised (PyException ''ValueError'' ''insufficient funds''), w2) \<and>
      (\<exists>r. audit_logs w2 = audit_logs example_world @ [r] \<and> risk_level r = Some ''HIGH''))"
  using create_payment_raises example_accepted
    decorated_function_failure_high_risk[where f=create_payment and w=example_world,
      OF create_payment_raises,
      of "Some ''CREATE''" "Some ''payment''" "''MEDIUM''" "''create_payment''" 0 1 example_env]
  by simp

text \<open>
  Claim C8. On the success path and on the failure path alike, the record the decorated
  function persists has the upper-cased name of the wrapped function as its action when
  no action was declared, and \<^verbatim>\<open>unknown\<close> as its resource type when no resource type
  was declared. The outcome \<open>out\<close> of the wrapped function is arbitrary: returned or
  raised.
\<close>

theorem decorated_function_default_action:
  assumes "f w = (out, w1)"
  shows "\<exists>w2. decorated_function a rt rl n f t0 t1 env w = (out, w2) \<and>
     (if audit_write_accepted env w1 \<and>
         (case out of Returned v \<Rightarrow> True | Raised e \<Rightarrow> isinstance_Exception e)
      then \<exists>r. audit_logs w2 = audit_logs w1 @ [r] \<and>
               (a = None \<longrightarrow> action r = Some (str_upper n)) \<and>
               (rt = None \<longrightarrow> resource_type r = Some ''unknown'')
      else audit_logs w2 = audit_logs w1)"
proof -
  from decorated_function_effect[where f=f and w=w, OF assms, of a rt rl n t0 t1 env]
  obtain w2 where eq: "decorated_function a rt rl n f t0 t1 env w = (out, w2)"
    and eff: "if audit_write_accepted env w1 \<and>
         (case out of Returned v \<Rightarrow> True | Raised e \<Rightarrow> isinstance_Exception e)
      then \<exists>r. audit_logs w2 = audit_logs w1 @ [r] \<and>
               action r = Some (py_or a (str_upper n)) \<and>
               resource_type r = Some (py_or rt ''unknown'') \<and>
               resource_id r = None \<and> status r = Some ''SUCCESS'' \<and>
               error_message r = None \<and> processing_time_ms r = None
      else audit_logs w2 = audit_logs w1"
    by blast
  from eff have "if audit_write_accepted env w1 \<and>
         (case out of Returned v \<Rightarrow> True | Raised e \<Rightarrow> isinstance_Exception e)
      then \<exists>r. audit_logs w2 = audit_logs w1 @ [r] \<and>
               (a = None \<longrightarrow> action r = Some (str_upper n)) \<and>
               (rt = None \<longrightarrow> resource_type r = Some ''unknown'')
      else audit_logs w2 = audit_logs w1"
    by (auto split: if_splits)
  with eq show ?thesis by blast
qed

theorem decorated_function_default_action_witness:
  "health_check example_world =
      (Returned (PDict [(KStr ''status'', PStr ''healthy'')]), example_world) \<and>
   create_payment example_world =
     (Raised (PyException ''ValueError'' ''insufficient funds''), example_world) \<and>
   str_upper ''health_check'' = ''HEALTH_CHECK'' \<and>
   str_upper ''create_payment'' = ''CREATE_PAYMENT'' \<and>
   (\<exists>w2. decorated_function None None ''LOW'' ''health_check'' health_check 0 1
            example_env example_world
          = (Returned (PDict [(KStr ''status'', PStr ''healthy'')]), w2) \<and>
      (\<exists>r. audit_logs w2 = audit_logs example_world @ [r] \<and>
           action r = Some ''HEALTH_CHECK'' \<and> resource_type r = Some ''unknown'')) \<and>
   (\<exists>w2. decorated_function None None ''LOW'' ''create_payment'' create_payment 0 1
            example_env example_world
          = (Raised (PyException ''ValueError'' ''insufficient funds''), w2) \<and>
      (\<exists>r. audit_logs w2 = audit_logs example_world @ [r] \<and>
           action r = Some ''CREATE_PAYMENT'' \<and> resource_type r = Some ''unknown''))"
proof -
  have u1: "str_upper ''health_check'' = ''HEALTH_CHECK''"
    by (simp add: str_upper_def upper_char_def)
  have u2: "str_upper ''create_payment'' = ''CREATE_PAYMENT''"
    by (simp add: str_upper_def upper_char_def)
  show ?thesis
    using health_check_returns create_payment_raises example_accepted
      decorated_function_default_action[where f=health_check and w=example_world,
        OF health_check_returns, of None None "''LOW''" "''health_check''" 0 1 example_env]
      decorated_function_default_action[where f=create_payment and w=example_world,
        OF create_payment_raises, of None None "''LOW''" "''create_payment''" 0 1 example_env]
    unfolding u1 u2 by simp
qed


text \<open>
  Claim C10. Whatever the two clock readings \<open>t0\<close> and \<open>t1\<close> are, the record the decorated
  function persists (on either path) has a null \<^verbatim>\<open>processing_time_ms\<close>: the elapsed time
  is computed and dropped.
\<close>

theorem decorated_function_no_processing_time:
  assumes "f w = (out, w1)"
  shows "\<exists>w2. decorated_function a rt rl n f t0 t1 env w = (out, w2) \<and>
     (if audit_write_accepted env w1 \<and>
         (case out of Returned v \<Rightarrow> True | Raised e \<Rightarrow> isinstance_Exception e)
      then \<exists>r. audit_logs w2 = audit_logs w1 @ [r] \<and> processing_time_ms r = None
      else audit_logs w2 = audit_logs w1)"
proof -
  from decorated_function_effect[where f=f and w=w, OF assms, of a rt rl n t0 t1 env]
  obtain w2 where eq: "decorated_function a rt rl n f t0 t1 env w = (out, w2)"
    and eff: "if audit_write_accepted env w1 \<and>
         (case out of Returned v \<Rightarrow> True | Raised e \<Rightarrow> isinstance_Exception e)
      then \<exists>r. audit_logs w2 = audit_logs w1 @ [r] \<and>
               action r = Some (py_or a (str_upper n)) \<and>
               resource_type r = Some (py_or rt ''unknown'') \<and>
               resource_id r = None \<and> status r = Some ''SUCCESS'' \<and>
               error_message r = None \<and> processing_time_ms r = None
      else audit_logs w2 = audit_logs w1"
    by blast
  from eff have "if audit_write_accepted env w1 \<and>
         (case out of Returned v \<Rightarrow> True | Raised e \<Rightarrow> isinstance_Exception e)
      then \<exists>r. audit_logs w2 = audit_logs w1 @ [r] \<and> processing_time_ms r = None
      else audit_logs w2 = audit_logs w1"
    by (auto split: if_splits)
  with eq show ?thesis by blast
qed

theorem decorated_function_no_processing_time_witness:
  "health_check example_world =
      (Returned (PDict [(KStr ''status'', PStr ''healthy'')]), example_world) \<and>
   (\<exists>w2. decorated_function (Some ''HEALTH_CHECK'') (Some ''system'') ''LOW'' ''health_check''
            health_check 1700000000000000 1700000000250000 example_env example_world
          = (Returned (PDict [(KStr ''status'', PStr ''healthy'')]), w2) \<and>
      (\<exists>r. audit_logs w2 = audit_logs example_world @ [r] \<and> processing_time_ms r = None))"
  using health_check_returns example_accepted
    decorated_function_no_processing_time[where f=health_check and w=example_world,
      OF health_check_returns, of "Some ''HEALTH_CHECK''" "Some ''system''" "''LOW''"
        "''health_check''" 1700000000000000 1700000000250000 example_env]
  by simp


text \<open>
  Claim C2. \<^verbatim>\<open>log_action\<close> never raises: it always returns. When its \<^verbatim>\<open>try\<close> block
  raises, and in particular when the store is unavailable or a payload cannot be
  serialised, it returns \<^verbatim>\<open>None\<close>, prints one line and leaves the table and the context
  as they were. Consequently a wrapped operation that returns normally has its result
  returned by the decorated function for every state of the store.
\<close>

theorem log_action_swallows_failures:
  "(\<exists>r w'. log_action a rt rid ov nv bc rl cf env w = (Returned r, w')) \<and>
   (\<forall>e w1. log_action_try a rt rid ov nv bc rl cf env w = (Raised e, w1) \<longrightarrow>
      (\<exists>m. log_action a rt rid ov nv bc rl cf env w =
              (Returned None, w\<lparr>stdout := stdout w @ [m]\<rparr>))) \<and>
   (db_error env \<noteq> None \<or> (\<exists>e. dumps_if_truthy ov = Inl e) \<or> (\<exists>e. dumps_if_truthy nv = Inl e)
      \<or> (\<exists>e. dumps_if_truthy cf = Inl e) \<longrightarrow>
      (\<exists>m. log_action a rt rid ov nv bc rl cf env w =
              (Returned None, w\<lparr>stdout := stdout w @ [m]\<rparr>))) \<and>
   (f w0 = (Returned v, w1) \<longrightarrow>
      (\<exists>w2. decorated_function a' rt' rl' n f t0 t1 env' w0 = (Returned v, w2)))"
proof (intro conjI allI impI)
  show "\<exists>r w'. log_action a rt rid ov nv bc rl cf env w = (Returned r, w')"
    by (rule log_action_never_raises)
next
  fix e w1
  assume r: "log_action_try a rt rid ov nv bc rl cf env w = (Raised e, w1)"
  from log_action_try_Raised[OF r] have "isinstance_Exception e" and "w1 = w" by simp_all
  with r have "log_action a rt rid ov nv bc rl cf env w =
      (Returned None, w\<lparr>stdout := stdout w @ [''Audit logging failed: '' @ str_exc e]\<rparr>)"
    by (simp add: log_action_def)
  then show "\<exists>m. log_action a rt rid ov nv bc rl cf env w =
              (Returned None, w\<lparr>stdout := stdout w @ [m]\<rparr>)"
    by (rule exI)
next
  assume bad: "db_error env \<noteq> None \<or> (\<exists>e. dumps_if_truthy ov = Inl e) \<or>
      (\<exists>e. dumps_if_truthy nv = Inl e) \<or> (\<exists>e. dumps_if_truthy cf = Inl e)"
  obtain out w' where eq: "log_action a rt rid ov nv bc rl cf env w = (out, w')"
    by (cases "log_action a rt rid ov nv bc rl cf env w")
  from log_action_effect[OF eq] bad have "out = Returned None" by auto
  with eq show "\<exists>m. log_action a rt rid ov nv bc rl cf env w =
              (Returned None, w\<lparr>stdout := stdout w @ [m]\<rparr>)"
    by (auto dest!: log_action_None)
next
  assume h: "f w0 = (Returned v, w1)"
  show "\<exists>w2. decorated_function a' rt' rl' n f t0 t1 env' w0 = (Returned v, w2)"
    by (simp add: decorated_function_Returned[where f=f and w=w0, OF h])
qed

theorem log_action_swallows_failures_witness:
  "db_error example_env_down \<noteq> None \<and>
   health_check example_world =
      (Returned (PDict [(KStr ''status'', PStr ''healthy'')]), example_world) \<and>
   (\<exists>m. log_action ''UPDATE'' ''project'' (Some ''P1'') (PObject ''Decimal'') PNone None ''LOW''
           PNone example_env_down example_world
         = (Returned None, example_world\<lparr>stdout := stdout example_world @ [m]\<rparr>)) \<and>
   (\<exists>w2. decorated_function (Some ''HEALTH_CHECK'') (Some ''system'') ''LOW'' ''health_check''
            health_check 0 1 example_env_down example_world
          = (Returned (PDict [(KStr ''status'', PStr ''healthy'')]), w2))"
proof -
  have d: "db_error example_env_down \<noteq> None" by (simp add: example_env_down_def)
  show ?thesis
    using d health_check_returns
      log_action_swallows_failures[of "''UPDATE''" "''project''" "Some ''P1''" "PObject ''Decimal''"
        PNone None "''LOW''" PNone example_env_down example_world health_check example_world
        "PDict [(KStr ''status'', PStr ''healthy'')]" example_world
        "Some ''HEALTH_CHECK''" "Some ''system''" "''LOW''" "''health_check''" 0 1 example_env_down]
    by simp
qed

text \<open>
  Claim C9. Every record \<^verbatim>\<open>log_action\<close> persists has a user id: the value of
  \<^verbatim>\<open>g.user_id\<close>, or \<^verbatim>\<open>system\<close> when the bound context carries no such attribute. (With
  no application context at all, or with \<^verbatim>\<open>g.user_id\<close> set to \<^verbatim>\<open>None\<close>, nothing is
  persisted: \<^verbatim>\<open>log_action\<close> returns \<^verbatim>\<open>None\<close>.)
\<close>

theorem log_action_default_user_id:
  assumes "log_action a rt rid ov nv bc rl cf env w = (Returned (Some i), w')"
  shows "\<exists>g r. ctx_g (ctx w) = Some g \<and> audit_logs w' = audit_logs w @ [r] \<and> id_col r = i \<and>
           user_id r = getattr_default (g_user_id g) (Some ''system'') \<and>
           user_id r \<noteq> None \<and>
           (g_user_id g = Missing \<longrightarrow> user_id r = Some ''system'')"
proof -
  from log_action_effect[OF assms]
  obtain g rp oj nj fj where g: "ctx_g (ctx w) = Some g"
    and u: "getattr_default (g_user_id g) (Some ''system'') \<noteq> None"
    and i: "i = uuid4 env"
    and l: "audit_logs w' = audit_logs w @
           [AuditLog (getattr_default (g_user_id g) (Some ''system''))
              (getattr_default (g_user_email g) None) (getattr_default (g_session_id g) None)
              (ctx_request (ctx w)) a rt rid rp oj nj bc rl fj env]"
    by auto
  let ?r = "AuditLog (getattr_default (g_user_id g) (Some ''system''))
              (getattr_default (g_user_email g) None) (getattr_default (g_session_id g) None)
              (ctx_request (ctx w)) a rt rid rp oj nj bc rl fj env"
  have "id_col ?r = i" and "user_id ?r = getattr_default (g_user_id g) (Some ''system'')"
    using i by (simp_all add: AuditLog_def)
  moreover have "g_user_id g = Missing \<longrightarrow> user_id ?r = Some ''system''"
    by (simp add: AuditLog_def)
  ultimately show ?thesis using g u l by (intro exI[of _ g] exI[of _ ?r]) simp
qed

theorem log_action_default_user_id_witness:
  "log_action ''LOGIN'' ''user'' None PNone PNone None ''LOW'' PNone example_env example_world =
     (Returned (Some ''6f1c''),
      example_world\<lparr>audit_logs := [AuditLog (Some ''system'') None None None ''LOGIN'' ''user''
         None None None None None ''LOW'' None example_env]\<rparr>) \<and>
   ctx_g (ctx example_world) = Some example_g \<and> g_user_id example_g = Missing \<and>
   user_id (AuditLog (Some ''system'') None None None ''LOGIN'' ''user''
         None None None None None ''LOW'' None example_env) = Some ''system''"
  using example_log_action log_action_default_user_id[OF example_log_action]
  by (simp add: example_world_def example_g_def)


text \<open>
  Claim C6. The trail is ordered by timestamp, most recent first, and is no longer than
  the limit; a call that passes no limit gets at most 100 rows.
\<close>

theorem get_audit_trail_sorted_limited:
  "sorted_wrt (\<lambda>r1 r2. timestamp r1 \<ge> timestamp r2) (get_audit_trail rt rid uid sd ed lmt w) \<and>
   length (get_audit_trail rt rid uid sd ed lmt w) \<le> (case lmt of None \<Rightarrow> 100 | Some n \<Rightarrow> n)"
  by (simp add: get_audit_trail_def Let_def sorted_wrt_take order_by_timestamp_desc_sorted)

theorem get_audit_trail_sorted_limited_witness:
  "sorted_wrt (\<lambda>r1 r2. timestamp r1 \<ge> timestamp r2)
     (get_audit_trail (Some ''project'') (Some ''P1'') None None None (Some 2) example_trail_world) \<and>
   length (get_audit_trail (Some ''project'') (Some ''P1'') None None None (Some 2)
     example_trail_world) \<le> 2 \<and>
   length (get_audit_trail None None None None None None example_trail_world) \<le> 100"
  using get_audit_trail_sorted_limited[of "Some ''project''" "Some ''P1''" None None None "Some 2"
      example_trail_world]
    get_audit_trail_sorted_limited[of None None None None None None example_trail_world]
  by simp

text \<open>
  Claim C5, as amended. The trail query keeps the rows that pass every filter given with
  a truthy value: a string filter that is \<^verbatim>\<open>None\<close> or empty is not applied, one that is
  a non-empty string must equal the column, and the time bounds, when given, are
  inclusive on both ends. The result is the first \<^verbatim>\<open>limit\<close> of these rows in descending
  timestamp order, so a row is returned only if it passes all the applied filters.
\<close>

theorem get_audit_trail_filters:
  "get_audit_trail rt rid uid sd ed lmt w =
     take (case lmt of None \<Rightarrow> 100 | Some n \<Rightarrow> n)
       (order_by_timestamp_desc
         (filter (\<lambda>r. (truthy_str rt \<longrightarrow> resource_type r = rt) \<and>
                       (truthy_str rid \<longrightarrow> resource_id r = rid) \<and>
                       (truthy_str uid \<longrightarrow> user_id r = uid) \<and>
                       (\<forall>d. sd = Some d \<longrightarrow> d \<le> timestamp r) \<and>
                       (\<forall>d. ed = Some d \<longrightarrow> timestamp r \<le> d))
            (audit_logs w))) \<and>
   (\<forall>r \<in> set (get_audit_trail rt rid uid sd ed lmt w).
      r \<in> set (audit_logs w) \<and>
      (truthy_str rt \<longrightarrow> resource_type r = rt) \<and>
      (truthy_str rid \<longrightarrow> resource_id r = rid) \<and>
      (truthy_str uid \<longrightarrow> user_id r = uid) \<and>
      (\<forall>d. sd = Some d \<longrightarrow> d \<le> timestamp r) \<and>
      (\<forall>d. ed = Some d \<longrightarrow> timestamp r \<le> d))"
proof -
  let ?P = "\<lambda>r. (truthy_str rt \<longrightarrow> resource_type r = rt) \<and>
                       (truthy_str rid \<longrightarrow> resource_id r = rid) \<and>
                       (truthy_str uid \<longrightarrow> user_id r = uid) \<and>
                       (\<forall>d. sd = Some d \<longrightarrow> d \<le> timestamp r) \<and>
                       (\<forall>d. ed = Some d \<longrightarrow> timestamp r \<le> d)"
  have eq: "get_audit_trail rt rid uid sd ed lmt w =
     take (case lmt of None \<Rightarrow> 100 | Some n \<Rightarrow> n)
       (order_by_timestamp_desc (filter ?P (audit_logs w)))"
    unfolding get_audit_trail_def Let_def
    by (cases sd; cases ed) (simp_all add: conj_commute conj_left_commute cong: conj_cong)
  have "\<forall>r \<in> set (get_audit_trail rt rid uid sd ed lmt w). r \<in> set (audit_logs w) \<and> ?P r"
  proof
    fix r assume "r \<in> set (get_audit_trail rt rid uid sd ed lmt w)"
    then have "r \<in> set (order_by_timestamp_desc (filter ?P (audit_logs w)))"
      unfolding eq by (rule in_set_takeD)
    then show "r \<in> set (audit_logs w) \<and> ?P r"
      by (simp add: set_order_by_timestamp_desc)
  qed
  with eq show ?thesis by blast
qed

theorem get_audit_trail_filters_witness:
  "map id_col (get_audit_trail (Some ''project'') (Some ''P1'') None (Some 10) (Some 20) None
     example_trail_world) = [''r3'', ''r1''] \<and>
   map timestamp (get_audit_trail (Some ''project'') (Some ''P1'') None (Some 10) (Some 20) None
     example_trail_world) = [20, 10] \<and>
   map id_col (get_audit_trail None None None None None None example_trail_world)
     = [''r5'', ''r3'', ''r2'', ''r4'', ''r1'']"
  using get_audit_trail_filters[of "Some ''project''" "Some ''P1''" None "Some 10" "Some 20" None
      example_trail_world]
    get_audit_trail_filters[of None None None None None None example_trail_world]
  by (simp add: order_by_timestamp_desc_def example_trail_world_def
      example_row_def AuditLog_def)


text \<open>
  Claim C5 as stated fails for a filter supplied as the empty string: the guard
  \<^verbatim>\<open>if resource_type:\<close> skips it, and the query returns rows of every resource type,
  none of which has the empty resource type asked for.
\<close>

theorem get_audit_trail_empty_string_filter:
  "map resource_type (get_audit_trail (Some '''') None None None None None example_trail_world)
     = [Some ''project'', Some ''project'', Some ''payment'', Some ''project'', Some ''project'']"
  by (simp add: get_audit_trail_def order_by_timestamp_desc_def example_trail_world_def
      example_row_def AuditLog_def Let_def)

text \<open>
  Claim C7, as amended. When \<^verbatim>\<open>log_action\<close> returns an id, the row it wrote is in the
  unfiltered trail, and for each of \<^verbatim>\<open>old_values\<close> and \<^verbatim>\<open>new_values\<close>: a truthy payload
  made of JSON-native values (\<open>json_native\<close>) is read back from the stored document
  equal to the payload written; a falsy payload (\<^verbatim>\<open>None\<close>, an empty dictionary or list)
  is stored as null.
\<close>

theorem log_action_payload_roundtrip:
  assumes "log_action a rt rid ov nv bc rl cf env w = (Returned (Some i), w')"
  shows "\<exists>r. audit_logs w' = audit_logs w @ [r] \<and> id_col r = i \<and>
     r \<in> set (get_audit_trail None None None None None (Some (length (audit_logs w'))) w') \<and>
     (if truthy ov then (json_native ov \<longrightarrow> map_option json_loads (old_values r) = Some ov)
      else old_values r = None) \<and>
     (if truthy nv then (json_native nv \<longrightarrow> map_option json_loads (new_values r) = Some nv)
      else new_values r = None)"
proof -
  from log_action_try_Returned[OF log_action_Some[OF assms]]
  obtain g :: flask_g and rp oj nj fj where o: "dumps_if_truthy ov = Inr oj"
    and n: "dumps_if_truthy nv = Inr nj"
    and i: "i = uuid4 env"
    and l': "w' = w\<lparr>audit_logs := audit_logs w @
           [AuditLog (getattr_default (g_user_id g) (Some ''system''))
              (getattr_default (g_user_email g) None) (getattr_default (g_session_id g) None)
              (ctx_request (ctx w)) a rt rid rp oj nj bc rl fj env]\<rparr>"
    by blast
  from l' have l: "audit_logs w' = audit_logs w @
           [AuditLog (getattr_default (g_user_id g) (Some ''system''))
              (getattr_default (g_user_email g) None) (getattr_default (g_session_id g) None)
              (ctx_request (ctx w)) a rt rid rp oj nj bc rl fj env]"
    by simp
  let ?r = "AuditLog (getattr_default (g_user_id g) (Some ''system''))
              (getattr_default (g_user_email g) None) (getattr_default (g_session_id g) None)
              (ctx_request (ctx w)) a rt rid rp oj nj bc rl fj env"
  have f: "id_col ?r = i" "old_values ?r = oj" "new_values ?r = nj"
    using i by (simp_all add: AuditLog_def)
  have "?r \<in> set (audit_logs w')"
    using l by simp
  then have m: "?r \<in> set (get_audit_trail None None None None None
      (Some (length (audit_logs w'))) w')"
    by (simp only: get_audit_trail_all)
  from dumps_if_truthy_roundtrip[OF o]
  have ro: "if truthy ov then (json_native ov \<longrightarrow> map_option json_loads (old_values ?r) = Some ov)
      else old_values ?r = None"
    by (simp only: f(2))
  from dumps_if_truthy_roundtrip[OF n]
  have rn: "if truthy nv then (json_native nv \<longrightarrow> map_option json_loads (new_values ?r) = Some nv)
      else new_values ?r = None"
    by (simp only: f(3))
  from l f(1) m ro rn show ?thesis
    by (intro exI[of _ ?r] conjI)
qed

theorem log_action_payload_roundtrip_witness:
  "truthy (PDict [(KStr ''budget'', PInt 100)]) \<and>
   json_native (PDict [(KStr ''budget'', PInt 100)]) \<and>
   truthy (PDict [(KStr ''budget'', PInt 250), (KStr ''tags'', PList [PStr ''urgent''])]) \<and>
   json_native (PDict [(KStr ''budget'', PInt 250), (KStr ''tags'', PList [PStr ''urgent''])]) \<and>
   (\<exists>r :: audit_log. id_col r = ''6f1c'' \<and>
      map_option json_loads (old_values r) = Some (PDict [(KStr ''budget'', PInt 100)]) \<and>
      map_option json_loads (new_values r) =
        Some (PDict [(KStr ''budget'', PInt 250), (KStr ''tags'', PList [PStr ''urgent''])]))"
proof -
  have t: "truthy (PDict [(KStr ''budget'', PInt 100)])"
      "json_native (PDict [(KStr ''budget'', PInt 100)])"
      "truthy (PDict [(KStr ''budget'', PInt 250), (KStr ''tags'', PList [PStr ''urgent''])])"
      "json_native (PDict [(KStr ''budget'', PInt 250), (KStr ''tags'', PList [PStr ''urgent''])])"
    by simp_all
  from log_action_payload_roundtrip[OF example_update]
  obtain r :: audit_log where r: "id_col r = ''6f1c''"
    and o: "if truthy (PDict [(KStr ''budget'', PInt 100)])
      then (json_native (PDict [(KStr ''budget'', PInt 100)]) \<longrightarrow>
              map_option json_loads (old_values r) = Some (PDict [(KStr ''budget'', PInt 100)]))
      else old_values r = None"
    and n: "if truthy (PDict [(KStr ''budget'', PInt 250), (KStr ''tags'', PList [PStr ''urgent''])])
      then (json_native (PDict [(KStr ''budget'', PInt 250), (KStr ''tags'', PList [PStr ''urgent''])]) \<longrightarrow>
              map_option json_loads (new_values r) =
                Some (PDict [(KStr ''budget'', PInt 250), (KStr ''tags'', PList [PStr ''urgent''])]))
      else new_values r = None"
    by blast
  from o t(1,2) have o': "map_option json_loads (old_values r) = Some (PDict [(KStr ''budget'', PInt 100)])"
    by (simp only: if_True simp_thms)
  from n t(3,4) have n': "map_option json_loads (new_values r) =
        Some (PDict [(KStr ''budget'', PInt 250), (KStr ''tags'', PList [PStr ''urgent''])])"
    by (simp only: if_True simp_thms)
  from t r o' n' show ?thesis by blast
qed


text \<open>
  Claim C7 as stated fails. An empty dictionary written as \<^verbatim>\<open>old_values\<close> is stored as
  null (\<^verbatim>\<open>json.dumps(old_values) if old_values else None\<close>), so nothing is read back;
  a dictionary with the integer key 1 is read back with the string key \<^verbatim>\<open>"1"\<close>; a tuple
  is read back as a list.
\<close>

theorem log_action_empty_payload_not_restored:
  "map old_values (get_audit_trail None None None None None None
      (snd (log_action ''UPDATE'' ''project'' (Some ''P1'') (PDict [])
              (PDict [(KInt 1, PStr ''a'')]) None ''LOW'' PNone example_env example_world)))
     = [None] \<and>
   map (map_option json_loads) (map new_values (get_audit_trail None None None None None None
      (snd (log_action ''UPDATE'' ''project'' (Some ''P1'') (PDict [])
              (PDict [(KInt 1, PStr ''a'')]) None ''LOW'' PNone example_env example_world))))
     = [Some (PDict [(KStr ''1'', PStr ''a'')])] \<and>
   map (map_option json_loads) (map old_values (get_audit_trail None None None None None None
      (snd (log_action ''UPDATE'' ''project'' (Some ''P1'') (PTuple [PInt 1, PInt 2])
              PNone None ''LOW'' PNone example_env example_world))))
     = [Some (PList [PInt 1, PInt 2])]"
  by (simp add: get_audit_trail_def order_by_timestamp_desc_def
      log_action_def log_action_try_def db_session_commit_def not_null_violation_def
      AuditLog_def example_env_def example_world_def example_g_def dumps_request_json_def
      dumps_if_truthy_def Let_def str_int_def digit_char_def dict_of_pairs_def)

end
